theory Spec2Isabelle
  imports Main
begin

section \<open>Python values used by the service supervisor\<close>

text \<open>
  The exceptions that the code of \<^verbatim>\<open>common/service.py\<close> and \<^verbatim>\<open>safari/service.py\<close>
  raises, catches or lets through. All of them are subclasses of Python's \<^verbatim>\<open>Exception\<close>.
  \<^verbatim>\<open>OSError\<close> carries its \<^verbatim>\<open>errno\<close> and message and stands for its builtin subclasses
  as well (\<^verbatim>\<open>FileNotFoundError\<close> is errno 2, \<^verbatim>\<open>PermissionError\<close> is errno 13).
  \<^verbatim>\<open>urllib.error.URLError\<close> is a subclass of \<^verbatim>\<open>OSError\<close> whose \<^verbatim>\<open>errno\<close> is \<^verbatim>\<open>None\<close>.
  \<^verbatim>\<open>subprocess.TimeoutExpired\<close> is a subclass of \<^verbatim>\<open>subprocess.SubprocessError\<close>, which is
  not an \<^verbatim>\<open>OSError\<close>. \<^verbatim>\<open>PyException\<close> is a plain \<^verbatim>\<open>Exception(message)\<close>.
\<close>

datatype exn =
    TypeError string
  | AttributeError string
  | ValueError string
  | OSError int string
  | URLError string
  | TimeoutExpired
  | WebDriverException string
  | PyException string

text \<open>\<^verbatim>\<open>isinstance(e, OSError)\<close>, \<^verbatim>\<open>isinstance(e, TypeError)\<close> and so on.\<close>

fun is_OSError :: "exn \<Rightarrow> bool" where
  "is_OSError (OSError _ _) = True"
| "is_OSError (URLError _) = True"
| "is_OSError _ = False"

fun is_URLError :: "exn \<Rightarrow> bool" where
  "is_URLError (URLError _) = True"
| "is_URLError _ = False"

fun is_TypeError :: "exn \<Rightarrow> bool" where
  "is_TypeError (TypeError _) = True"
| "is_TypeError _ = False"

fun is_AttributeError :: "exn \<Rightarrow> bool" where
  "is_AttributeError (AttributeError _) = True"
| "is_AttributeError _ = False"

fun is_WebDriverException :: "exn \<Rightarrow> bool" where
  "is_WebDriverException (WebDriverException _) = True"
| "is_WebDriverException _ = False"

text \<open>\<^verbatim>\<open>err.errno\<close> of a caught \<^verbatim>\<open>OSError\<close>.\<close>

fun errno_of :: "exn \<Rightarrow> int option" where
  "errno_of (OSError n _) = Some n"
| "errno_of _ = None"

text \<open>\<^verbatim>\<open>str(e)\<close>: for an \<^verbatim>\<open>OSError\<close> built by the OS layer it is its message.\<close>

fun str_exn :: "exn \<Rightarrow> string" where
  "str_exn (TypeError m) = m"
| "str_exn (AttributeError m) = m"
| "str_exn (ValueError m) = m"
| "str_exn (OSError _ m) = m"
| "str_exn (URLError m) = m"
| "str_exn TimeoutExpired = ''''"
| "str_exn (WebDriverException m) = m"
| "str_exn (PyException m) = m"

definition ENOENT :: int where "ENOENT = 2"
definition EACCES :: int where "EACCES = 13"

text \<open>\<^verbatim>\<open>str(n)\<close> and \<^verbatim>\<open>f"{n}"\<close> for a Python integer: decimal digits, a minus sign if negative.\<close>

definition digit_char :: "nat \<Rightarrow> char" where
  "digit_char d = ''0123456789'' ! (d mod 10)"

fun str_nat :: "nat \<Rightarrow> string" where
  "str_nat n = (if n < 10 then [digit_char n] else str_nat (n div 10) @ [digit_char (n mod 10)])"

declare str_nat.simps [simp del]

definition str_int :: "int \<Rightarrow> string" where
  "str_int i = (if i < 0 then CHR ''-'' # str_nat (nat (- i)) else str_nat (nat i))"

text \<open>\<^verbatim>\<open>sub in s\<close> on strings.\<close>

fun contains :: "string \<Rightarrow> string \<Rightarrow> bool" where
  "contains sub [] = (sub = [])"
| "contains sub (c # cs) = (take (length sub) (c # cs) = sub \<or> contains sub cs)"

text \<open>\<^verbatim>\<open>os.path.basename\<close> (POSIX): what follows the last slash.\<close>

definition basename :: "string \<Rightarrow> string" where
  "basename p = rev (takeWhile (\<lambda>c. c \<noteq> CHR ''/'') (rev p))"

section \<open>The data model\<close>

text \<open>
  The output sink \<^verbatim>\<open>log_file\<close>: the constants \<^verbatim>\<open>subprocess.PIPE\<close> and
  \<^verbatim>\<open>subprocess.DEVNULL\<close>, or a file object (named by the path it was opened on).
\<close>

datatype sink = PIPE | DEVNULL | FileObj string

text \<open>The three standard streams of a child, as \<^verbatim>\<open>Popen\<close> names them.\<close>

datatype stream = Stdin | Stdout | Stderr

text \<open>
  A \<^verbatim>\<open>subprocess.Popen\<close> object: each of \<^verbatim>\<open>stdin\<close>, \<^verbatim>\<open>stdout\<close>, \<^verbatim>\<open>stderr\<close> is a
  file object when the corresponding argument was \<^verbatim>\<open>PIPE\<close>, and \<^verbatim>\<open>None\<close> otherwise.
\<close>

record process =
  p_cmd :: "string list"
  p_env :: "(string \<times> string) list"
  p_stdin :: "stream option"
  p_stdout :: "stream option"
  p_stderr :: "stream option"

text \<open>The fields that \<^verbatim>\<open>Service.__init__\<close> sets; the Safari subclass adds two more.\<close>

record service =
  path :: string
  port :: int
  log_file :: sink
  start_error_message :: string
  creation_flags :: int
  env :: "(string \<times> string) list"
  process :: "process option"

record safari_service = service +
  service_args :: "string list"
  quiet :: bool

section \<open>The world outside the supervisor\<close>

text \<open>
  What the supervisor does to the world, in the order it does it. Durations are in
  milliseconds: \<^verbatim>\<open>sleep(0.5)\<close> is \<open>EvSleep 500\<close>, \<^verbatim>\<open>process.wait(60)\<close> is \<open>EvWait 60000\<close>.
\<close>

datatype event =
    EvExists string
  | EvFreePort
  | EvOpen string
  | EvPopen "string list"
  | EvPoll
  | EvConnect int
  | EvSleep nat
  | EvUrlopen string
  | EvSinkClose
  | EvStreamClose stream
  | EvTerminate
  | EvWait nat
  | EvKill
  | EvLogError string

text \<open>
  The world answers every call the supervisor makes. For each kind of call the world
  holds the answers to come, the answer at index 0 being the one the next call gets;
  a call takes its answer, shifts the rest down and appends its event to \<open>trace\<close>.
  An answer \<open>None\<close> of an \<open>exn option\<close> means the call returned normally.
  \<open>poll_r\<close> answers \<^verbatim>\<open>Popen.poll()\<close>: \<open>None\<close> while the child runs, its return code
  once it has exited.
\<close>

record world =
  os_environ :: "(string \<times> string) list"
  path_exists :: "string \<Rightarrow> bool"
  free_port_r :: "nat \<Rightarrow> int"
  popen_r :: "nat \<Rightarrow> exn option"
  poll_r :: "nat \<Rightarrow> int option"
  connect_r :: "nat \<Rightarrow> bool"
  urlopen_r :: "nat \<Rightarrow> exn option"
  sink_close_r :: "nat \<Rightarrow> exn option"
  stream_close_r :: "nat \<Rightarrow> exn option"
  terminate_r :: "nat \<Rightarrow> exn option"
  wait_r :: "nat \<Rightarrow> exn option"
  kill_r :: "nat \<Rightarrow> exn option"
  trace :: "event list"

definition shift :: "(nat \<Rightarrow> 'a) \<Rightarrow> nat \<Rightarrow> 'a" where
  "shift f = (\<lambda>k. f (Suc k))"

definition emit :: "event \<Rightarrow> world \<Rightarrow> world" where
  "emit e w = w\<lparr>trace := trace w @ [e]\<rparr>"

text \<open>\<^verbatim>\<open>utils.free_port()\<close>, \<^verbatim>\<open>utils.is_connectable(port)\<close>, \<^verbatim>\<open>os.path.exists(p)\<close>,
  \<^verbatim>\<open>open(p, ...)\<close>, \<^verbatim>\<open>sleep(t)\<close> and \<^verbatim>\<open>log.error(msg)\<close>.\<close>

definition free_port :: "world \<Rightarrow> int \<times> world" where
  "free_port w = (free_port_r w 0, emit EvFreePort (w\<lparr>free_port_r := shift (free_port_r w)\<rparr>))"

definition utils_is_connectable :: "int \<Rightarrow> world \<Rightarrow> bool \<times> world" where
  "utils_is_connectable p w =
     (connect_r w 0, emit (EvConnect p) (w\<lparr>connect_r := shift (connect_r w)\<rparr>))"

definition os_path_exists :: "string \<Rightarrow> world \<Rightarrow> bool \<times> world" where
  "os_path_exists p w = (path_exists w p, emit (EvExists p) w)"

definition open_file :: "string \<Rightarrow> world \<Rightarrow> sink \<times> world" where
  "open_file p w = (FileObj p, emit (EvOpen p) w)"

definition sleep :: "nat \<Rightarrow> world \<Rightarrow> world" where
  "sleep ms w = emit (EvSleep ms) w"

definition log_error :: "string \<Rightarrow> world \<Rightarrow> world" where
  "log_error m w = emit (EvLogError m) w"

definition os_devnull :: string where
  "os_devnull = ''/dev/null''"

text \<open>
  Modelled from the spec: \<^verbatim>\<open>utils.join_host_port\<close> is not among the sources; the spec
  gives the base URL format as \<^verbatim>\<open>http://<host>:<port>\<close>, so the helper joins host and
  port with a colon.
\<close>

definition join_host_port :: "string \<Rightarrow> int \<Rightarrow> string" where
  "join_host_port host p = host @ '':'' @ str_int p"

section \<open>\<^verbatim>\<open>common/service.py\<close>\<close>

definition HAS_NATIVE_DEVNULL :: bool where
  "HAS_NATIVE_DEVNULL = True"

text \<open>
  \<^verbatim>\<open>Service.__init__\<close>. \<^verbatim>\<open>port or utils.free_port()\<close> calls the allocator only when
  \<^verbatim>\<open>port\<close> is 0; \<^verbatim>\<open>env or os.environ\<close> takes \<^verbatim>\<open>os.environ\<close> when \<^verbatim>\<open>env\<close> is \<^verbatim>\<open>None\<close>
  or an empty mapping.
\<close>

definition Service_init ::
  "string \<Rightarrow> int \<Rightarrow> sink \<Rightarrow> (string \<times> string) list option \<Rightarrow> string \<Rightarrow> world \<Rightarrow> service \<times> world"
where
  "Service_init executable port0 log_file0 env0 start_error_message0 w =
     (let (prt, w1) = (if port0 \<noteq> 0 then (port0, w) else free_port w);
          (lf, w2) = (if \<not> HAS_NATIVE_DEVNULL \<and> log_file0 = DEVNULL
                      then open_file os_devnull w1 else (log_file0, w1))
      in (\<lparr>path = executable, port = prt, log_file = lf,
           start_error_message = start_error_message0, creation_flags = 0,
           env = (case env0 of None \<Rightarrow> os_environ w2
                  | Some e \<Rightarrow> if e \<noteq> [] then e else os_environ w2),
           process = None\<rparr>, w2))"

text \<open>The property \<^verbatim>\<open>service_url\<close> of the base class.\<close>

definition service_url :: "'a service_scheme \<Rightarrow> string" where
  "service_url s = ''http://'' @ join_host_port ''localhost'' (port s)"

text \<open>\<^verbatim>\<open>Popen.poll()\<close>.\<close>

definition process_poll :: "world \<Rightarrow> int option \<times> world" where
  "process_poll w = (poll_r w 0, emit EvPoll (w\<lparr>poll_r := shift (poll_r w)\<rparr>))"

text \<open>The truth value of \<^verbatim>\<open>return_code\<close>: \<^verbatim>\<open>None\<close> and \<^verbatim>\<open>0\<close> are false.\<close>

fun truthy_code :: "int option \<Rightarrow> bool" where
  "truthy_code None = False"
| "truthy_code (Some c) = (c \<noteq> 0)"

text \<open>
  \<^verbatim>\<open>Service.assert_process_still_running\<close>. The test \<^verbatim>\<open>if return_code:\<close> is false when
  \<^verbatim>\<open>poll()\<close> gave \<^verbatim>\<open>None\<close> and when it gave \<^verbatim>\<open>0\<close>.
\<close>

definition assert_process_still_running :: "'a service_scheme \<Rightarrow> world \<Rightarrow> (exn + unit) \<times> world" where
  "assert_process_still_running s w =
     (let (return_code, w1) = process_poll w
      in case return_code of
           None \<Rightarrow> (Inr (), w1)
         | Some c \<Rightarrow>
             if c \<noteq> 0
             then (Inl (WebDriverException (''Service '' @ path s @
                     '' unexpectedly exited. Status code was: '' @ str_int c)), w1)
             else (Inr (), w1))"

text \<open>\<^verbatim>\<open>Service.is_connectable\<close>.\<close>

definition is_connectable :: "'a service_scheme \<Rightarrow> world \<Rightarrow> bool \<times> world" where
  "is_connectable s w = utils_is_connectable (port s) w"

text \<open>
  \<^verbatim>\<open>subprocess.Popen(cmd, env=..., stdout=log_file, stderr=log_file, stdin=PIPE, ...)\<close>:
  it raises what the world answers, or returns the process object. \<^verbatim>\<open>stdin\<close> is always
  a pipe; \<^verbatim>\<open>stdout\<close> and \<^verbatim>\<open>stderr\<close> are pipes only when the sink is \<^verbatim>\<open>PIPE\<close>.
\<close>

definition popen :: "string list \<Rightarrow> (string \<times> string) list \<Rightarrow> sink \<Rightarrow> world \<Rightarrow> (exn + process) \<times> world" where
  "popen cmd ev lf w =
     (let w1 = emit (EvPopen cmd) (w\<lparr>popen_r := shift (popen_r w)\<rparr>)
      in case popen_r w 0 of
           Some e \<Rightarrow> (Inl e, w1)
         | None \<Rightarrow>
             (Inr \<lparr>p_cmd = cmd, p_env = ev, p_stdin = Some Stdin,
                   p_stdout = (if lf = PIPE then Some Stdout else None),
                   p_stderr = (if lf = PIPE then Some Stderr else None)\<rparr>, w1))"

definition msg_not_in_path :: "'a service_scheme \<Rightarrow> string" where
  "msg_not_in_path s =
     [CHR 0x27] @ basename (path s) @ [CHR 0x27] @ '' executable needs to be in PATH. '' @
     start_error_message s"

definition msg_wrong_permissions :: "'a service_scheme \<Rightarrow> string" where
  "msg_wrong_permissions s =
     [CHR 0x27] @ basename (path s) @ [CHR 0x27] @ '' executable may have wrong permissions. '' @
     start_error_message s"

definition msg_not_available :: "'a service_scheme \<Rightarrow> exn \<Rightarrow> string" where
  "msg_not_available s e =
     ''The executable '' @ basename (path s) @ '' needs to be available in the path. '' @
     start_error_message s @ [CHR 0x0A] @ str_exn e"

text \<open>
  The \<^verbatim>\<open>try\<close> statement that opens \<^verbatim>\<open>Service.start\<close>, with its handlers in the order
  of the source: \<^verbatim>\<open>except TypeError: raise\<close>, then \<^verbatim>\<open>except OSError as err\<close> with its
  three branches (the last one re-raises \<^verbatim>\<open>err\<close>), then \<^verbatim>\<open>except Exception as e\<close>.
  \<open>args\<close> is what \<^verbatim>\<open>self.command_line_args()\<close> returns.
\<close>

definition spawn :: "'a service_scheme \<Rightarrow> string list \<Rightarrow> world \<Rightarrow> (exn + unit) \<times> 'a service_scheme \<times> world" where
  "spawn s args w =
     (let cmd = [path s] @ args;
          (r, w1) = popen cmd (env s) (log_file s) w
      in case r of
           Inr p \<Rightarrow> (Inr (), s\<lparr>process := Some p\<rparr>, w1)
         | Inl e \<Rightarrow>
             if is_TypeError e then (Inl e, s, w1)
             else if is_OSError e then
               (if errno_of e = Some ENOENT then (Inl (WebDriverException (msg_not_in_path s)), s, w1)
                else if errno_of e = Some EACCES then (Inl (WebDriverException (msg_wrong_permissions s)), s, w1)
                else (Inl e, s, w1))
             else (Inl (WebDriverException (msg_not_available s e)), s, w1))"

text \<open>
  The \<^verbatim>\<open>while True\<close> loop of \<^verbatim>\<open>Service.start\<close>; \<open>count\<close> is the loop's counter. The
  loop has no bound of its own, so the result is \<open>None\<close> where it would run forever.
\<close>

partial_function (option) start_loop :: "'a service_scheme \<Rightarrow> nat \<Rightarrow> world \<Rightarrow> ((exn + unit) \<times> world) option" where
  "start_loop s count w =
     (case assert_process_still_running s w of
        (Inl e, w1) \<Rightarrow> Some (Inl e, w1)
      | (Inr _, w1) \<Rightarrow>
          (case is_connectable s w1 of
             (connectable, w2) \<Rightarrow>
               if connectable then Some (Inr (), w2)
               else if count + 1 = 60
               then Some (Inl (WebDriverException (''Can not connect to the Service '' @ path s)),
                          sleep 500 w2)
               else start_loop s (count + 1) (sleep 500 w2)))"

declare start_loop.simps [code]

text \<open>
  The world after one iteration of the loop that found the process alive and the port
  closed: the liveness check, the reachability check and \<^verbatim>\<open>sleep(0.5)\<close> have happened.
\<close>

definition retry_world :: "'a service_scheme \<Rightarrow> world \<Rightarrow> world" where
  "retry_world s w =
     sleep 500 (snd (is_connectable s (snd (assert_process_still_running s w))))"

text \<open>\<^verbatim>\<open>Service.start\<close>.\<close>

definition start :: "'a service_scheme \<Rightarrow> string list \<Rightarrow> world \<Rightarrow> ((exn + unit) \<times> 'a service_scheme \<times> world) option" where
  "start s args w =
     (case spawn s args w of
        (Inl e, s1, w1) \<Rightarrow> Some (Inl e, s1, w1)
      | (Inr _, s1, w1) \<Rightarrow>
          (case start_loop s1 0 w1 of
             None \<Rightarrow> None
           | Some (r, w2) \<Rightarrow> Some (r, s1, w2)))"

text \<open>\<^verbatim>\<open>request.urlopen(url)\<close>; the response is not used.\<close>

definition urlopen :: "string \<Rightarrow> world \<Rightarrow> exn option \<times> world" where
  "urlopen url w = (urlopen_r w 0, emit (EvUrlopen url) (w\<lparr>urlopen_r := shift (urlopen_r w)\<rparr>))"

text \<open>
  The loop \<^verbatim>\<open>for _ in range(30)\<close> of \<^verbatim>\<open>send_remote_shutdown_command\<close>; the first
  argument is the number of iterations left.
\<close>

fun shutdown_poll :: "nat \<Rightarrow> 'a service_scheme \<Rightarrow> world \<Rightarrow> world" where
  "shutdown_poll 0 s w = w"
| "shutdown_poll (Suc n) s w =
     (case is_connectable s w of
        (False, w1) \<Rightarrow> w1
      | (True, w1) \<Rightarrow> shutdown_poll n s (sleep 1000 w1))"

text \<open>\<^verbatim>\<open>Service.send_remote_shutdown_command\<close>: \<^verbatim>\<open>except URLError: return\<close> leaves
  the function at once; any other exception of \<^verbatim>\<open>urlopen\<close> goes to the caller.\<close>

definition send_remote_shutdown_command :: "'a service_scheme \<Rightarrow> world \<Rightarrow> (exn + unit) \<times> world" where
  "send_remote_shutdown_command s w =
     (case urlopen (service_url s @ ''/shutdown'') w of
        (Some e, w1) \<Rightarrow> if is_URLError e then (Inr (), w1) else (Inl e, w1)
      | (None, w1) \<Rightarrow> (Inr (), shutdown_poll 30 s w1))"

text \<open>
  \<^verbatim>\<open>stream.close()\<close> on one of \<^verbatim>\<open>process.stdin\<close>, \<^verbatim>\<open>process.stdout\<close>,
  \<^verbatim>\<open>process.stderr\<close>: on \<^verbatim>\<open>None\<close> the attribute lookup raises \<^verbatim>\<open>AttributeError\<close>, on
  a file object the world answers.
\<close>

definition stream_close :: "stream option \<Rightarrow> world \<Rightarrow> exn option \<times> world" where
  "stream_close st w =
     (case st of
        None \<Rightarrow> (Some (AttributeError ''NoneType object has no attribute close''), w)
      | Some x \<Rightarrow>
          (stream_close_r w 0, emit (EvStreamClose x) (w\<lparr>stream_close_r := shift (stream_close_r w)\<rparr>)))"

text \<open>\<^verbatim>\<open>with contextlib.suppress(AttributeError): stream.close()\<close>.\<close>

definition close_suppressing :: "stream option \<Rightarrow> world \<Rightarrow> exn option \<times> world" where
  "close_suppressing st w =
     (case stream_close st w of
        (Some e, w1) \<Rightarrow> if is_AttributeError e then (None, w1) else (Some e, w1)
      | (None, w1) \<Rightarrow> (None, w1))"

text \<open>The loop \<^verbatim>\<open>for stream in stdin, stdout, stderr\<close>; an exception ends it.\<close>

fun close_streams :: "stream option list \<Rightarrow> world \<Rightarrow> exn option \<times> world" where
  "close_streams [] w = (None, w)"
| "close_streams (st # sts) w =
     (case close_suppressing st w of
        (Some e, w1) \<Rightarrow> (Some e, w1)
      | (None, w1) \<Rightarrow> close_streams sts w1)"

text \<open>\<^verbatim>\<open>process.terminate()\<close>, \<^verbatim>\<open>process.wait(60)\<close> and \<^verbatim>\<open>process.kill()\<close>.\<close>

definition process_terminate :: "world \<Rightarrow> exn option \<times> world" where
  "process_terminate w =
     (terminate_r w 0, emit EvTerminate (w\<lparr>terminate_r := shift (terminate_r w)\<rparr>))"

definition process_wait :: "nat \<Rightarrow> world \<Rightarrow> exn option \<times> world" where
  "process_wait ms w = (wait_r w 0, emit (EvWait ms) (w\<lparr>wait_r := shift (wait_r w)\<rparr>))"

definition process_kill :: "world \<Rightarrow> exn option \<times> world" where
  "process_kill w = (kill_r w 0, emit EvKill (w\<lparr>kill_r := shift (kill_r w)\<rparr>))"

text \<open>The body of the \<^verbatim>\<open>try\<close> of \<^verbatim>\<open>Service._terminate_process\<close>, statement by statement.\<close>

definition terminate_body :: "process \<Rightarrow> world \<Rightarrow> exn option \<times> world" where
  "terminate_body p w =
     (case close_streams [p_stdin p, p_stdout p, p_stderr p] w of
        (Some e, w1) \<Rightarrow> (Some e, w1)
      | (None, w1) \<Rightarrow>
          (case process_terminate w1 of
             (Some e, w2) \<Rightarrow> (Some e, w2)
           | (None, w2) \<Rightarrow>
               (case process_wait 60000 w2 of
                  (Some e, w3) \<Rightarrow> (Some e, w3)
                | (None, w3) \<Rightarrow> process_kill w3)))"

text \<open>
  \<^verbatim>\<open>Service._terminate_process\<close>: the handler \<^verbatim>\<open>except OSError\<close> logs and returns; an
  exception of any other class leaves the function. With \<^verbatim>\<open>self.process\<close> being
  \<^verbatim>\<open>None\<close> the first statement of the body raises \<^verbatim>\<open>AttributeError\<close>.
\<close>

definition terminate_process :: "'a service_scheme \<Rightarrow> world \<Rightarrow> (exn + unit) \<times> world" where
  "terminate_process s w =
     (case (case process s of
              None \<Rightarrow> (Some (AttributeError ''NoneType object has no attribute stdin''), w)
            | Some p \<Rightarrow> terminate_body p w) of
        (Some e, w1) \<Rightarrow>
          if is_OSError e then (Inr (), log_error ''Error terminating service process.'' w1)
          else (Inl e, w1)
      | (None, w1) \<Rightarrow> (Inr (), w1))"

text \<open>\<^verbatim>\<open>self.log_file.close()\<close>.\<close>

definition sink_close :: "world \<Rightarrow> exn option \<times> world" where
  "sink_close w = (sink_close_r w 0, emit EvSinkClose (w\<lparr>sink_close_r := shift (sink_close_r w)\<rparr>))"

text \<open>
  \<^verbatim>\<open>Service.stop\<close>. The close of the sink runs under \<^verbatim>\<open>contextlib.suppress(Exception)\<close>,
  which drops whatever it raises; \<^verbatim>\<open>send_remote_shutdown_command\<close> runs under
  \<^verbatim>\<open>contextlib.suppress(TypeError)\<close>, which drops a \<^verbatim>\<open>TypeError\<close> only. The method
  assigns no attribute of \<^verbatim>\<open>self\<close>.
\<close>

definition stop :: "'a service_scheme \<Rightarrow> world \<Rightarrow> (exn + unit) \<times> 'a service_scheme \<times> world" where
  "stop s w =
     (let w1 = (if log_file s \<noteq> PIPE \<and> \<not> (log_file s = DEVNULL \<and> HAS_NATIVE_DEVNULL)
                then snd (sink_close w) else w)
      in if process s \<noteq> None
         then (case send_remote_shutdown_command s w1 of
                 (Inl e, w2) \<Rightarrow>
                   if is_TypeError e
                   then (case terminate_process s w2 of (r, w3) \<Rightarrow> (r, s, w3))
                   else (Inl e, s, w2)
               | (Inr _, w2) \<Rightarrow> (case terminate_process s w2 of (r, w3) \<Rightarrow> (r, s, w3)))
         else (Inr (), s, w1))"

text \<open>\<^verbatim>\<open>Service.__del__\<close>: \<^verbatim>\<open>self.stop()\<close> under \<^verbatim>\<open>contextlib.suppress(Exception)\<close>.\<close>

definition Service_del :: "'a service_scheme \<Rightarrow> world \<Rightarrow> (exn + unit) \<times> 'a service_scheme \<times> world" where
  "Service_del s w = (case stop s w of (r, s1, w1) \<Rightarrow> (Inr (), s1, w1))"

section \<open>\<^verbatim>\<open>safari/service.py\<close>\<close>

definition DEFAULT_EXECUTABLE_PATH :: string where
  "DEFAULT_EXECUTABLE_PATH = ''/usr/bin/safaridriver''"

definition download_url :: string where
  "download_url = ''https://developer.apple.com/safari/download/''"

definition msg_preview_missing :: string where
  "msg_preview_missing =
     ''Safari Technology Preview does not seem to be installed. You can download it at '' @
     download_url @ ''.''"

definition msg_safaridriver_missing :: string where
  "msg_safaridriver_missing =
     ''SafariDriver was not found; are you running Safari 10 or later? You can download Safari at '' @
     download_url @ ''.''"

text \<open>
  \<^verbatim>\<open>Service.__init__\<close> of the Safari subclass: the existence check comes first and
  raises a plain \<^verbatim>\<open>Exception\<close>; then the port and the arguments are resolved, the sink
  is \<^verbatim>\<open>PIPE\<close> or a file opened on the null device, and the base constructor runs
  with the default \<^verbatim>\<open>env\<close> and \<^verbatim>\<open>start_error_message\<close>.
\<close>

definition Safari_init ::
  "string \<Rightarrow> int \<Rightarrow> bool \<Rightarrow> string list option \<Rightarrow> world \<Rightarrow> (exn + safari_service) \<times> world"
where
  "Safari_init executable_path port0 quiet0 service_args0 w =
     (case os_path_exists executable_path w of
        (False, w1) \<Rightarrow>
          (Inl (PyException (if contains ''Safari Technology Preview'' executable_path
                             then msg_preview_missing else msg_safaridriver_missing)), w1)
      | (True, w1) \<Rightarrow>
          (let (prt, w2) = (if port0 \<noteq> 0 then (port0, w1) else free_port w1);
               args = (case service_args0 of None \<Rightarrow> [] | Some a \<Rightarrow> if a \<noteq> [] then a else []);
               (lg, w3) = (if quiet0 then open_file os_devnull w2 else (PIPE, w2));
               (base, w4) = Service_init executable_path prt lg None [] w3
           in (Inr (service.extend base \<lparr>service_args = args, quiet = quiet0\<rparr>), w4)))"

text \<open>\<^verbatim>\<open>command_line_args\<close> and the overriding property \<^verbatim>\<open>service_url\<close>.\<close>

definition command_line_args :: "safari_service \<Rightarrow> string list" where
  "command_line_args s = [''-p'', str_int (port s)] @ service_args s"

definition Safari_service_url :: "safari_service \<Rightarrow> string" where
  "Safari_service_url s = ''http://localhost:'' @ str_int (port s)"

text \<open>\<^verbatim>\<open>start\<close> as the Safari subclass inherits it.\<close>

definition Safari_start :: "safari_service \<Rightarrow> world \<Rightarrow> ((exn + unit) \<times> safari_service \<times> world) option" where
  "Safari_start s w = start s (command_line_args s) w"

section \<open>Example inputs\<close>

text \<open>
  A world in which the Safari driver is installed, spawns, keeps running, listens from
  the first check on and where no call fails; the other worlds of the examples are
  updates of it.
\<close>

definition world0 :: world where
  "world0 = \<lparr>os_environ = [(''PATH'', ''/usr/bin'')],
             path_exists = (\<lambda>p. p = ''/usr/bin/safaridriver''),
             free_port_r = (\<lambda>k. 4444 + int k),
             popen_r = (\<lambda>k. None), poll_r = (\<lambda>k. None), connect_r = (\<lambda>k. True),
             urlopen_r = (\<lambda>k. None), sink_close_r = (\<lambda>k. None),
             stream_close_r = (\<lambda>k. None), terminate_r = (\<lambda>k. None),
             wait_r = (\<lambda>k. None), kill_r = (\<lambda>k. None), trace = []\<rparr>"

text \<open>The handle that \<^verbatim>\<open>Service("/usr/bin/safaridriver", 4444, PIPE)\<close> constructs.\<close>

definition svc0 :: service where
  "svc0 = \<lparr>path = ''/usr/bin/safaridriver'', port = 4444, log_file = PIPE,
           start_error_message = [], creation_flags = 0,
           env = [(''PATH'', ''/usr/bin'')], process = None\<rparr>"

text \<open>The process that \<open>svc0\<close> spawns with the arguments \<^verbatim>\<open>-p 4444\<close>, and the handle that holds it.\<close>

definition proc0 :: process where
  "proc0 = \<lparr>p_cmd = [''/usr/bin/safaridriver'', ''-p'', ''4444''],
            p_env = [(''PATH'', ''/usr/bin'')],
            p_stdin = Some Stdin, p_stdout = Some Stdout, p_stderr = Some Stderr\<rparr>"

definition svc_up :: service where
  "svc_up = svc0\<lparr>process := Some proc0\<rparr>"

text \<open>
  A world in which the port accepts the one connection of the readiness check and is
  closed afterwards, as when the service obeys the shutdown request.
\<close>

definition world_served :: world where
  "world_served = world0\<lparr>connect_r := (\<lambda>k. k = 0)\<rparr>"

text \<open>
  A world in which the child ignores the termination signal, so that every
  \<^verbatim>\<open>process.wait(60)\<close> runs into its timeout and raises \<^verbatim>\<open>subprocess.TimeoutExpired\<close>;
  the port is closed.
\<close>

definition world_stuck :: world where
  "world_stuck = world0\<lparr>connect_r := (\<lambda>k. False), wait_r := (\<lambda>k. Some TimeoutExpired)\<rparr>"

text \<open>A world in which sending the termination signal fails with an \<^verbatim>\<open>OSError\<close>.\<close>

definition world_eperm :: world where
  "world_eperm = world0\<lparr>connect_r := (\<lambda>k. False),
                         terminate_r := (\<lambda>k. Some (OSError 1 ''Operation not permitted''))\<rparr>"

section \<open>Facts about the helpers\<close>

lemma str_int_4444 [simp]: "str_int 4444 = ''4444''"
  by (simp add: str_int_def str_nat.simps digit_char_def)

lemma world_fields [simp]:
  "os_environ (emit e w) = os_environ w" "path_exists (emit e w) = path_exists w"
  "free_port_r (emit e w) = free_port_r w" "popen_r (emit e w) = popen_r w"
  "poll_r (emit e w) = poll_r w" "connect_r (emit e w) = connect_r w"
  "urlopen_r (emit e w) = urlopen_r w" "sink_close_r (emit e w) = sink_close_r w"
  "stream_close_r (emit e w) = stream_close_r w" "terminate_r (emit e w) = terminate_r w"
  "wait_r (emit e w) = wait_r w" "kill_r (emit e w) = kill_r w"
  "trace (emit e w) = trace w @ [e]"
  by (simp_all add: emit_def)

section \<open>The constructor\<close>

lemma Service_init_port:
  "port (fst (Service_init ex p lf ev msg w)) = (if p \<noteq> 0 then p else free_port_r w 0)"
  by (simp add: Service_init_def free_port_def HAS_NATIVE_DEVNULL_def Let_def split: prod.splits)

lemma Service_init_env:
  "env (fst (Service_init ex p lf ev msg w)) =
     (case ev of None \<Rightarrow> os_environ w | Some e \<Rightarrow> if e \<noteq> [] then e else os_environ w)"
  by (simp add: Service_init_def free_port_def HAS_NATIVE_DEVNULL_def Let_def
      split: prod.splits option.splits)

lemma Service_init_process: "process (fst (Service_init ex p lf ev msg w)) = None"
  by (simp add: Service_init_def free_port_def HAS_NATIVE_DEVNULL_def Let_def split: prod.splits)

text \<open>
  C8: the constructor keeps a nonzero port and takes the allocator's answer for port 0;
  the base URL, of the base class and of the Safari override alike, is
  \<^verbatim>\<open>http://localhost:\<close> followed by the decimal form of the handle's port, so it depends
  on the port alone.
\<close>

theorem C8_port_resolved_and_url:
  "(p \<noteq> 0 \<longrightarrow> port (fst (Service_init ex p lf ev msg w)) = p)
   \<and> port (fst (Service_init ex 0 lf ev msg w)) = free_port_r w 0
   \<and> service_url s = ''http://localhost:'' @ str_int (port s)
   \<and> Safari_service_url t = ''http://localhost:'' @ str_int (port t)"
  by (simp add: Service_init_port service_url_def join_host_port_def Safari_service_url_def)

theorem C8_port_resolved_and_url_witness:
  "(4444::int) \<noteq> 0
   \<and> port (fst (Service_init ''/usr/bin/safaridriver'' 4444 PIPE None [] world0)) = 4444
   \<and> port (fst (Service_init ''/usr/bin/safaridriver'' 0 PIPE None [] world0)) = 4444
   \<and> service_url svc0 = ''http://localhost:4444''
   \<and> Safari_service_url (service.extend svc0 \<lparr>service_args = [], quiet = False\<rparr>)
       = ''http://localhost:4444''"
  using C8_port_resolved_and_url [of 4444 "''/usr/bin/safaridriver''" PIPE None "[]" world0 svc0
               "service.extend svc0 \<lparr>service_args = [], quiet = False\<rparr>"]
  by (simp add: world0_def svc0_def service.defs)

section \<open>Spawning\<close>

lemma spawn_ok:
  "popen_r w 0 = None \<Longrightarrow>
   spawn s args w =
     (Inr (), s\<lparr>process := Some \<lparr>p_cmd = path s # args, p_env = env s, p_stdin = Some Stdin,
                     p_stdout = (if log_file s = PIPE then Some Stdout else None),
                     p_stderr = (if log_file s = PIPE then Some Stderr else None)\<rparr>\<rparr>,
      emit (EvPopen (path s # args)) (w\<lparr>popen_r := shift (popen_r w)\<rparr>))"
  by (simp add: spawn_def popen_def Let_def)

lemma spawn_fail:
  "popen_r w 0 = Some e \<Longrightarrow>
   spawn s args w =
     ((if is_TypeError e then Inl e
       else if is_OSError e then
         (if errno_of e = Some ENOENT then Inl (WebDriverException (msg_not_in_path s))
          else if errno_of e = Some EACCES then Inl (WebDriverException (msg_wrong_permissions s))
          else Inl e)
       else Inl (WebDriverException (msg_not_available s e))),
      s, emit (EvPopen (path s # args)) (w\<lparr>popen_r := shift (popen_r w)\<rparr>))"
  by (simp add: spawn_def popen_def Let_def)

lemma start_spawn_fail:
  "popen_r w 0 = Some e \<Longrightarrow>
   start s args w = Some (fst (spawn s args w), s, snd (snd (spawn s args w)))"
  by (simp add: start_def spawn_fail)

text \<open>
  C10: an explicitly empty \<^verbatim>\<open>env\<close> is replaced by \<^verbatim>\<open>os.environ\<close>; whatever \<^verbatim>\<open>env\<close> the
  constructor is given, the handle's environment is empty only if \<^verbatim>\<open>os.environ\<close> itself
  is; and the environment of the handle is the one the child is spawned with.
\<close>

theorem C10_empty_env_is_replaced:
  "env (fst (Service_init ex p lf (Some []) msg w)) = os_environ w
   \<and> (env (fst (Service_init ex p lf ev msg w)) = [] \<longrightarrow> os_environ w = [])
   \<and> (popen_r w' 0 = None \<longrightarrow>
        map_option p_env (process (fst (snd (spawn s args w')))) = Some (env s))"
  by (simp add: Service_init_env spawn_ok split: option.splits)

theorem C10_empty_env_is_replaced_witness:
  "env (fst (Service_init ''/usr/bin/safaridriver'' 4444 PIPE (Some []) [] world0))
     = [(''PATH'', ''/usr/bin'')]
   \<and> env (fst (Service_init ''/usr/bin/safaridriver'' 4444 PIPE (Some [])  []
                 (world0\<lparr>os_environ := []\<rparr>))) = []
   \<and> os_environ (world0\<lparr>os_environ := []\<rparr>) = []
   \<and> popen_r world0 0 = None
   \<and> map_option p_env (process (fst (snd (spawn svc0 [''-p'', ''4444''] world0))))
       = Some [(''PATH'', ''/usr/bin'')]"
  using C10_empty_env_is_replaced [of "''/usr/bin/safaridriver''" 4444 PIPE "[]" world0 "Some []"
          world0 svc0 "[''-p'', ''4444'']"]
        C10_empty_env_is_replaced [of "''/usr/bin/safaridriver''" 4444 PIPE "[]"
          "world0\<lparr>os_environ := []\<rparr>" "Some []" world0 svc0 "[''-p'', ''4444'']"]
  by (simp add: world0_def svc0_def)

text \<open>
  C5, as the code has it: when \<^verbatim>\<open>Popen\<close> raises, \<^verbatim>\<open>start()\<close> raises at once and records
  no process. A \<^verbatim>\<open>TypeError\<close> goes through unchanged; an \<^verbatim>\<open>OSError\<close> with errno ENOENT
  or EACCES becomes a \<^verbatim>\<open>WebDriverException\<close> naming the executable's base name and the
  hint; any other \<^verbatim>\<open>OSError\<close> is re-raised unchanged; and an exception that is neither
  becomes a \<^verbatim>\<open>WebDriverException\<close> naming the executable, the hint and the message of
  the exception.
\<close>

theorem C5_spawn_failures:
  assumes "popen_r w 0 = Some e"
  shows "\<exists>r. start s args w =
            Some (r, s, emit (EvPopen (path s # args)) (w\<lparr>popen_r := shift (popen_r w)\<rparr>))
     \<and> (is_TypeError e \<longrightarrow> r = Inl e)
     \<and> (errno_of e = Some ENOENT \<longrightarrow>
          r = Inl (WebDriverException ([CHR 0x27] @ basename (path s) @ [CHR 0x27] @
                 '' executable needs to be in PATH. '' @ start_error_message s)))
     \<and> (errno_of e = Some EACCES \<longrightarrow>
          r = Inl (WebDriverException ([CHR 0x27] @ basename (path s) @ [CHR 0x27] @
                 '' executable may have wrong permissions. '' @ start_error_message s)))
     \<and> (is_OSError e \<and> errno_of e \<noteq> Some ENOENT \<and> errno_of e \<noteq> Some EACCES \<longrightarrow> r = Inl e)
     \<and> (\<not> is_TypeError e \<and> \<not> is_OSError e \<longrightarrow>
          r = Inl (WebDriverException (''The executable '' @ basename (path s) @
                 '' needs to be available in the path. '' @ start_error_message s @
                 [CHR 0x0A] @ str_exn e)))"
  using assms
  by (cases e)
     (simp_all add: start_spawn_fail spawn_fail msg_not_in_path_def msg_wrong_permissions_def
        msg_not_available_def ENOENT_def EACCES_def)

theorem C5_spawn_failures_witness:
  "map_option fst (start svc0 [''-p'', ''4444'']
       (world0\<lparr>popen_r := (\<lambda>k. Some (TypeError ''expected str, bytes or os.PathLike object''))\<rparr>))
     = Some (Inl (TypeError ''expected str, bytes or os.PathLike object''))
   \<and> map_option fst (start svc0 [''-p'', ''4444'']
       (world0\<lparr>popen_r := (\<lambda>k. Some (OSError 2 ''No such file or directory''))\<rparr>))
     = Some (Inl (WebDriverException
         ([CHR 0x27] @ ''safaridriver'' @ [CHR 0x27] @ '' executable needs to be in PATH. '')))
   \<and> map_option fst (start svc0 [''-p'', ''4444'']
       (world0\<lparr>popen_r := (\<lambda>k. Some (OSError 13 ''Permission denied''))\<rparr>))
     = Some (Inl (WebDriverException
         ([CHR 0x27] @ ''safaridriver'' @ [CHR 0x27] @ '' executable may have wrong permissions. '')))
   \<and> map_option fst (start svc0 [''-p'', ''4444'']
       (world0\<lparr>popen_r := (\<lambda>k. Some (OSError 8 ''Exec format error''))\<rparr>))
     = Some (Inl (OSError 8 ''Exec format error''))
   \<and> map_option fst (start svc0 [''-p'', ''4444'']
       (world0\<lparr>popen_r := (\<lambda>k. Some (ValueError ''embedded null byte''))\<rparr>))
     = Some (Inl (WebDriverException
         (''The executable safaridriver needs to be available in the path. '' @ [CHR 0x0A] @
          ''embedded null byte'')))"
proof -
  have bn: "basename (path svc0) = ''safaridriver''" "start_error_message svc0 = []"
    by (simp_all add: basename_def svc0_def)
  have a: "map_option fst (start svc0 [''-p'', ''4444'']
       (world0\<lparr>popen_r := (\<lambda>k. Some (TypeError ''expected str, bytes or os.PathLike object''))\<rparr>))
     = Some (Inl (TypeError ''expected str, bytes or os.PathLike object''))"
    using C5_spawn_failures [of "world0\<lparr>popen_r := (\<lambda>k. Some (TypeError ''expected str, bytes or os.PathLike object''))\<rparr>"
        "TypeError ''expected str, bytes or os.PathLike object''" svc0 "[''-p'', ''4444'']"]
    by auto
  have b: "map_option fst (start svc0 [''-p'', ''4444'']
       (world0\<lparr>popen_r := (\<lambda>k. Some (OSError 2 ''No such file or directory''))\<rparr>))
     = Some (Inl (WebDriverException
         ([CHR 0x27] @ ''safaridriver'' @ [CHR 0x27] @ '' executable needs to be in PATH. '')))"
    using C5_spawn_failures [of "world0\<lparr>popen_r := (\<lambda>k. Some (OSError 2 ''No such file or directory''))\<rparr>"
        "OSError 2 ''No such file or directory''" svc0 "[''-p'', ''4444'']"]
    by (auto simp add: bn ENOENT_def)
  have c: "map_option fst (start svc0 [''-p'', ''4444'']
       (world0\<lparr>popen_r := (\<lambda>k. Some (OSError 13 ''Permission denied''))\<rparr>))
     = Some (Inl (WebDriverException
         ([CHR 0x27] @ ''safaridriver'' @ [CHR 0x27] @ '' executable may have wrong permissions. '')))"
    using C5_spawn_failures [of "world0\<lparr>popen_r := (\<lambda>k. Some (OSError 13 ''Permission denied''))\<rparr>"
        "OSError 13 ''Permission denied''" svc0 "[''-p'', ''4444'']"]
    by (auto simp add: bn EACCES_def)
  have d: "map_option fst (start svc0 [''-p'', ''4444'']
       (world0\<lparr>popen_r := (\<lambda>k. Some (OSError 8 ''Exec format error''))\<rparr>))
     = Some (Inl (OSError 8 ''Exec format error''))"
    using C5_spawn_failures [of "world0\<lparr>popen_r := (\<lambda>k. Some (OSError 8 ''Exec format error''))\<rparr>"
        "OSError 8 ''Exec format error''" svc0 "[''-p'', ''4444'']"]
    by (auto simp add: ENOENT_def EACCES_def)
  have e: "map_option fst (start svc0 [''-p'', ''4444'']
       (world0\<lparr>popen_r := (\<lambda>k. Some (ValueError ''embedded null byte''))\<rparr>))
     = Some (Inl (WebDriverException
         (''The executable safaridriver needs to be available in the path. '' @ [CHR 0x0A] @
          ''embedded null byte'')))"
    using C5_spawn_failures [of "world0\<lparr>popen_r := (\<lambda>k. Some (ValueError ''embedded null byte''))\<rparr>"
        "ValueError ''embedded null byte''" svc0 "[''-p'', ''4444'']"]
    by (auto simp add: bn)
  from a b c d e show ?thesis by (simp only: simp_thms)
qed

text \<open>
  The claim C5 as stated fails: an \<^verbatim>\<open>OSError\<close> with errno 8 (exec format error) leaves
  \<^verbatim>\<open>start()\<close> as that very \<^verbatim>\<open>OSError\<close>, not as a \<^verbatim>\<open>WebDriverException\<close>.
\<close>

theorem C5_other_oserror_not_wrapped:
  "map_option fst (start svc0 [''-p'', ''4444'']
       (world0\<lparr>popen_r := (\<lambda>k. Some (OSError 8 ''Exec format error''))\<rparr>))
     = Some (Inl (OSError 8 ''Exec format error''))
   \<and> \<not> is_WebDriverException (OSError 8 ''Exec format error'')"
  by (simp add: start_spawn_fail spawn_fail ENOENT_def EACCES_def)

section \<open>Liveness check\<close>

lemma assert_exited_nonzero:
  "poll_r w 0 = Some c \<Longrightarrow> c \<noteq> 0 \<Longrightarrow>
   fst (assert_process_still_running s w) =
     Inl (WebDriverException (''Service '' @ path s @
            '' unexpectedly exited. Status code was: '' @ str_int c))"
  by (simp add: assert_process_still_running_def process_poll_def)

section \<open>The Safari variant\<close>

lemma contains_self: "contains sub (sub @ post)"
proof (cases "sub @ post")
  case Nil
  then show ?thesis by simp
next
  case (Cons a list)
  have "take (length sub) (sub @ post) = sub" by simp
  then have "take (length sub) (a # list) = sub" by (simp only: Cons)
  then show ?thesis by (simp only: Cons contains.simps) simp
qed

lemma contains_append: "contains sub (pre @ sub @ post)"
proof (induction pre)
  case Nil
  show ?case using contains_self by simp
next
  case (Cons c pre)
  then show ?case by simp
qed

lemma contains_download_url:
  "contains download_url msg_preview_missing" "contains download_url msg_safaridriver_missing"
  unfolding msg_preview_missing_def msg_safaridriver_missing_def
  by (rule contains_append)+

text \<open>
  C9: when the executable path does not exist, the Safari constructor raises an
  exception whose message contains the download address, having done nothing but the
  existence check (no port allocated, no file opened, no base constructor, no spawn);
  when it exists, a handle is built whose \<^verbatim>\<open>command_line_args()\<close> are \<^verbatim>\<open>-p\<close>, the
  decimal form of the resolved port, and then the given extra arguments in their order.
\<close>

theorem C9_safari_constructor:
  "(\<not> path_exists w ex \<longrightarrow>
      (\<exists>m. Safari_init ex p q sa w = (Inl (PyException m), emit (EvExists ex) w)
           \<and> contains download_url m))
   \<and> (path_exists w ex \<longrightarrow>
      (\<exists>s w'. Safari_init ex p q sa w = (Inr s, w')
           \<and> path s = ex
           \<and> (p \<noteq> 0 \<longrightarrow> port s = p)
           \<and> command_line_args s =
               [''-p'', str_int (port s)] @ (case sa of None \<Rightarrow> [] | Some a \<Rightarrow> a)))"
  by (auto simp add: Safari_init_def os_path_exists_def contains_download_url Let_def
        command_line_args_def service.defs Service_init_def free_port_def HAS_NATIVE_DEVNULL_def
        split: prod.splits option.splits)

theorem C9_safari_constructor_witness:
  "\<not> path_exists world0 ''/Applications/Safari Technology Preview.app/safaridriver''
   \<and> Safari_init ''/Applications/Safari Technology Preview.app/safaridriver'' 0 False None world0
       = (Inl (PyException msg_preview_missing),
          emit (EvExists ''/Applications/Safari Technology Preview.app/safaridriver'') world0)
   \<and> contains download_url msg_preview_missing
   \<and> path_exists world0 ''/usr/bin/safaridriver''
   \<and> map_sum id command_line_args
        (fst (Safari_init ''/usr/bin/safaridriver'' 4444 True (Some [''--diagnose'', ''-v'']) world0))
       = Inr [''-p'', ''4444'', ''--diagnose'', ''-v'']"
  using C9_safari_constructor [of world0 "''/Applications/Safari Technology Preview.app/safaridriver''"
          0 False None]
        C9_safari_constructor [of world0 "''/usr/bin/safaridriver''" 4444 True
          "Some [''--diagnose'', ''-v'']"]
  by (auto simp add: world0_def Safari_init_def os_path_exists_def msg_preview_missing_def
        msg_safaridriver_missing_def download_url_def)

section \<open>The readiness loop\<close>

lemma shift_apply [simp]: "shift f k = f (Suc k)"
  by (simp add: shift_def)

lemma retry_world_fields [simp]:
  "poll_r (retry_world s w) k = poll_r w (Suc k)"
  "connect_r (retry_world s w) k = connect_r w (Suc k)"
  "trace (retry_world s w) = trace w @ [EvPoll, EvConnect (port s), EvSleep 500]"
  by (simp_all add: retry_world_def sleep_def is_connectable_def utils_is_connectable_def
        assert_process_still_running_def process_poll_def split: option.splits)

lemma retry_world_funpow [simp]:
  "poll_r ((retry_world s ^^ n) w) k = poll_r w (k + n)"
  "connect_r ((retry_world s ^^ n) w) k = connect_r w (k + n)"
  "trace ((retry_world s ^^ n) w) =
     trace w @ concat (replicate n [EvPoll, EvConnect (port s), EvSleep 500])"
  by (induction n arbitrary: w k) (simp_all add: funpow_swap1 del: append.simps)

text \<open>One iteration of the loop, by the three ways it can go.\<close>

lemma start_loop_exited:
  "truthy_code (poll_r w 0) \<Longrightarrow>
   start_loop s count w =
     Some (Inl (WebDriverException (''Service '' @ path s @
             '' unexpectedly exited. Status code was: '' @ str_int (the (poll_r w 0)))),
           snd (assert_process_still_running s w))"
  by (subst start_loop.simps)
     (auto simp add: assert_process_still_running_def process_poll_def split: option.splits)

lemma start_loop_connected:
  "\<not> truthy_code (poll_r w 0) \<Longrightarrow> connect_r w 0 \<Longrightarrow>
   start_loop s count w =
     Some (Inr (), snd (is_connectable s (snd (assert_process_still_running s w))))"
  by (subst start_loop.simps)
     (auto simp add: assert_process_still_running_def process_poll_def is_connectable_def
        utils_is_connectable_def split: option.splits)

lemma start_loop_retry:
  "\<not> truthy_code (poll_r w 0) \<Longrightarrow> \<not> connect_r w 0 \<Longrightarrow>
   start_loop s count w =
     (if count + 1 = 60
      then Some (Inl (WebDriverException (''Can not connect to the Service '' @ path s)),
                 retry_world s w)
      else start_loop s (count + 1) (retry_world s w))"
  by (subst start_loop.simps)
     (auto simp add: assert_process_still_running_def process_poll_def is_connectable_def
        utils_is_connectable_def retry_world_def split: option.splits)

lemma start_loop_returns:
  "count < 60 \<Longrightarrow> \<exists>r. start_loop s count w = Some r"
proof (induction "60 - count" arbitrary: count w)
  case 0
  then show ?case by simp
next
  case (Suc n)
  show ?case
  proof (cases "truthy_code (poll_r w 0)")
    case True
    then show ?thesis by (simp add: start_loop_exited)
  next
    case alive: False
    show ?thesis
    proof (cases "connect_r w 0")
      case True
      with alive show ?thesis by (simp add: start_loop_connected)
    next
      case False
      show ?thesis
      proof (cases "count + 1 = 60")
        case True
        with alive False show ?thesis by (simp add: start_loop_retry)
      next
        case more: False
        with Suc.prems Suc.hyps(2) have "n = 60 - (count + 1)" "count + 1 < 60" by arith+
        from Suc.hyps(1) [OF this] obtain r where "start_loop s (count + 1) (retry_world s w) = Some r"
          by blast
        with alive False more show ?thesis by (simp add: start_loop_retry)
      qed
    qed
  qed
qed

lemma start_loop_timeout:
  "count + n = 60 \<Longrightarrow> 0 < n \<Longrightarrow> \<forall>k<n. \<not> truthy_code (poll_r w k) \<and> \<not> connect_r w k \<Longrightarrow>
   start_loop s count w =
     Some (Inl (WebDriverException (''Can not connect to the Service '' @ path s)),
           (retry_world s ^^ n) w)"
proof (induction n arbitrary: count w)
  case 0
  then show ?case by simp
next
  case (Suc n)
  from Suc.prems(3) have now: "\<not> truthy_code (poll_r w 0)" "\<not> connect_r w 0" by auto
  show ?case
  proof (cases "n = 0")
    case True
    with Suc.prems(1) now show ?thesis by (simp add: start_loop_retry)
  next
    case False
    from Suc.prems(3)
    have later: "\<forall>k<n. \<not> truthy_code (poll_r (retry_world s w) k) \<and> \<not> connect_r (retry_world s w) k"
      by simp
    from Suc.prems(1) False have "count + 1 + n = 60" "0 < n" "count + 1 \<noteq> 60" by arith+
    with Suc.IH [OF this(1,2) later] now show ?thesis
      by (simp add: start_loop_retry funpow_swap1)
  qed
qed

lemma start_loop_success:
  "count + k < 60 \<Longrightarrow> connect_r w k \<Longrightarrow> \<forall>j<k. \<not> connect_r w j \<Longrightarrow>
   \<forall>j\<le>k. \<not> truthy_code (poll_r w j) \<Longrightarrow>
   start_loop s count w =
     Some (Inr (), snd (is_connectable s (snd (assert_process_still_running s
                      ((retry_world s ^^ k) w)))))"
proof (induction k arbitrary: count w)
  case 0
  then show ?case by (simp add: start_loop_connected)
next
  case (Suc k)
  from Suc.prems have now: "\<not> truthy_code (poll_r w 0)" "\<not> connect_r w 0" by auto
  from Suc.prems have next_ok: "count + 1 + k < 60" "connect_r (retry_world s w) k"
    "\<forall>j<k. \<not> connect_r (retry_world s w) j" "\<forall>j\<le>k. \<not> truthy_code (poll_r (retry_world s w) j)"
    by auto
  from Suc.prems(1) have "count + 1 \<noteq> 60" by arith
  with Suc.IH [OF next_ok] now show ?case
    by (simp add: start_loop_retry funpow_swap1)
qed

lemma start_loop_exit_seen:
  "count + k < 60 \<Longrightarrow> truthy_code (poll_r w k) \<Longrightarrow>
   \<forall>j<k. \<not> connect_r w j \<and> \<not> truthy_code (poll_r w j) \<Longrightarrow>
   start_loop s count w =
     Some (Inl (WebDriverException (''Service '' @ path s @
             '' unexpectedly exited. Status code was: '' @ str_int (the (poll_r w k)))),
           snd (assert_process_still_running s ((retry_world s ^^ k) w)))"
proof (induction k arbitrary: count w)
  case 0
  then show ?case by (simp add: start_loop_exited)
next
  case (Suc k)
  from Suc.prems have now: "\<not> truthy_code (poll_r w 0)" "\<not> connect_r w 0" by auto
  from Suc.prems have next_ok: "count + 1 + k < 60" "truthy_code (poll_r (retry_world s w) k)"
    "\<forall>j<k. \<not> connect_r (retry_world s w) j \<and> \<not> truthy_code (poll_r (retry_world s w) j)"
    by auto
  from Suc.prems(1) have "count + 1 \<noteq> 60" by arith
  with Suc.IH [OF next_ok] now show ?case
    by (simp add: start_loop_retry funpow_swap1)
qed

lemma trace_after_check [simp]:
  "trace (snd (assert_process_still_running s w)) = trace w @ [EvPoll]"
  "trace (snd (is_connectable s w)) = trace w @ [EvConnect (port s)]"
  by (simp_all add: assert_process_still_running_def process_poll_def is_connectable_def
        utils_is_connectable_def split: option.splits)

lemma start_returns: "\<exists>r. start s args w = Some r"
proof (cases "popen_r w 0")
  case None
  obtain r w' where "start_loop (fst (snd (spawn s args w))) 0 (snd (snd (spawn s args w))) = Some (r, w')"
    using start_loop_returns [of 0] by (metis zero_less_numeral surj_pair)
  with None show ?thesis by (simp add: start_def spawn_ok)
next
  case (Some e)
  then show ?thesis by (simp add: start_spawn_fail)
qed

text \<open>
  C6: the loop of \<^verbatim>\<open>start()\<close>, entered with its counter at 0, always returns or
  raises, and so does \<^verbatim>\<open>start()\<close>. If for 60 iterations the process never registers
  as exited and the port is never reachable, the loop raises the connect error after
  exactly 60 rounds of liveness check, reachability check and \<^verbatim>\<open>sleep(0.5)\<close>, in this
  order, and nothing more. If the \<open>k\<close>-th reachability check (\<open>k < 60\<close>) is the first to
  succeed and the process has not registered as exited until then, the loop returns
  normally right after that check. If the \<open>k\<close>-th liveness check is the first to see a
  nonzero exit code, the loop raises the exit error without a reachability check in
  that iteration, whether or not the port is reachable.
\<close>

theorem C6_readiness_loop:
  "(\<exists>r. start_loop s 0 w = Some r)
   \<and> (\<exists>r. start s args w = Some r)
   \<and> ((\<forall>j<60. \<not> truthy_code (poll_r w j) \<and> \<not> connect_r w j) \<longrightarrow>
        (\<exists>w'. start_loop s 0 w =
                 Some (Inl (WebDriverException (''Can not connect to the Service '' @ path s)), w')
             \<and> trace w' = trace w @ concat (replicate 60 [EvPoll, EvConnect (port s), EvSleep 500])))
   \<and> (k < 60 \<and> connect_r w k \<and> (\<forall>j<k. \<not> connect_r w j) \<and> (\<forall>j\<le>k. \<not> truthy_code (poll_r w j)) \<longrightarrow>
        (\<exists>w'. start_loop s 0 w = Some (Inr (), w')
             \<and> trace w' = trace w @ concat (replicate k [EvPoll, EvConnect (port s), EvSleep 500])
                            @ [EvPoll, EvConnect (port s)]))
   \<and> (k < 60 \<and> poll_r w k = Some c \<and> c \<noteq> 0
        \<and> (\<forall>j<k. \<not> connect_r w j \<and> \<not> truthy_code (poll_r w j)) \<longrightarrow>
        (\<exists>w'. start_loop s 0 w =
                 Some (Inl (WebDriverException (''Service '' @ path s @
                         '' unexpectedly exited. Status code was: '' @ str_int c)), w')
             \<and> trace w' = trace w @ concat (replicate k [EvPoll, EvConnect (port s), EvSleep 500])
                            @ [EvPoll]))"
proof (intro conjI impI)
  show "\<exists>r. start_loop s 0 w = Some r" by (rule start_loop_returns) simp
  show "\<exists>r. start s args w = Some r" by (rule start_returns)
next
  assume "\<forall>j<60. \<not> truthy_code (poll_r w j) \<and> \<not> connect_r w j"
  then have "start_loop s 0 w =
      Some (Inl (WebDriverException (''Can not connect to the Service '' @ path s)),
            (retry_world s ^^ 60) w)"
    by (intro start_loop_timeout) simp_all
  then show "\<exists>w'. start_loop s 0 w =
                 Some (Inl (WebDriverException (''Can not connect to the Service '' @ path s)), w')
             \<and> trace w' = trace w @ concat (replicate 60 [EvPoll, EvConnect (port s), EvSleep 500])"
    by simp
next
  assume a: "k < 60 \<and> connect_r w k \<and> (\<forall>j<k. \<not> connect_r w j) \<and> (\<forall>j\<le>k. \<not> truthy_code (poll_r w j))"
  then have "start_loop s 0 w =
     Some (Inr (), snd (is_connectable s (snd (assert_process_still_running s
                      ((retry_world s ^^ k) w)))))"
    by (intro start_loop_success) simp_all
  then show "\<exists>w'. start_loop s 0 w = Some (Inr (), w')
             \<and> trace w' = trace w @ concat (replicate k [EvPoll, EvConnect (port s), EvSleep 500])
                            @ [EvPoll, EvConnect (port s)]"
    by simp
next
  assume a: "k < 60 \<and> poll_r w k = Some c \<and> c \<noteq> 0
        \<and> (\<forall>j<k. \<not> connect_r w j \<and> \<not> truthy_code (poll_r w j))"
  then have "start_loop s 0 w =
     Some (Inl (WebDriverException (''Service '' @ path s @
             '' unexpectedly exited. Status code was: '' @ str_int (the (poll_r w k)))),
           snd (assert_process_still_running s ((retry_world s ^^ k) w)))"
    by (intro start_loop_exit_seen) simp_all
  with a show "\<exists>w'. start_loop s 0 w =
                 Some (Inl (WebDriverException (''Service '' @ path s @
                         '' unexpectedly exited. Status code was: '' @ str_int c)), w')
             \<and> trace w' = trace w @ concat (replicate k [EvPoll, EvConnect (port s), EvSleep 500])
                            @ [EvPoll]"
    by simp
qed

theorem C6_readiness_loop_witness:
  "map_option fst (start_loop svc_up 0 (world0\<lparr>connect_r := (\<lambda>k. False)\<rparr>))
       = Some (Inl (WebDriverException ''Can not connect to the Service /usr/bin/safaridriver''))
   \<and> map_option (\<lambda>r. trace (snd r)) (start_loop svc_up 0 (world0\<lparr>connect_r := (\<lambda>k. False)\<rparr>))
       = Some (concat (replicate 60 [EvPoll, EvConnect 4444, EvSleep 500]))
   \<and> (3::nat) < 60
   \<and> map_option (\<lambda>r. (fst r, trace (snd r)))
        (start_loop svc_up 0 (world0\<lparr>connect_r := (\<lambda>k. 3 \<le> k)\<rparr>))
       = Some (Inr (), [EvPoll, EvConnect 4444, EvSleep 500, EvPoll, EvConnect 4444, EvSleep 500,
                        EvPoll, EvConnect 4444, EvSleep 500, EvPoll, EvConnect 4444])
   \<and> map_option (\<lambda>r. (fst r, trace (snd r)))
        (start_loop svc_up 0
           (world0\<lparr>connect_r := (\<lambda>k. 1 \<le> k), poll_r := (\<lambda>k. if k < 1 then None else Some (- 9))\<rparr>))
       = Some (Inl (WebDriverException
                 (''Service /usr/bin/safaridriver unexpectedly exited. Status code was: '' @
                  str_int (- 9))),
               [EvPoll, EvConnect 4444, EvSleep 500, EvPoll])"
proof -
  have p: "port svc_up = 4444" "path svc_up = ''/usr/bin/safaridriver''"
    by (simp_all add: svc_up_def svc0_def)
  have a: "\<forall>j<60. \<not> truthy_code (poll_r (world0\<lparr>connect_r := (\<lambda>k. False)\<rparr>) j)
             \<and> \<not> connect_r (world0\<lparr>connect_r := (\<lambda>k. False)\<rparr>) j"
    by (simp add: world0_def)
  have b: "map_option fst (start_loop svc_up 0 (world0\<lparr>connect_r := (\<lambda>k. False)\<rparr>))
       = Some (Inl (WebDriverException ''Can not connect to the Service /usr/bin/safaridriver''))"
      "map_option (\<lambda>r. trace (snd r)) (start_loop svc_up 0 (world0\<lparr>connect_r := (\<lambda>k. False)\<rparr>))
       = Some (concat (replicate 60 [EvPoll, EvConnect 4444, EvSleep 500]))"
    using C6_readiness_loop [of svc_up "world0\<lparr>connect_r := (\<lambda>k. False)\<rparr>" "[]" 0 0] a
    by (auto simp add: p world0_def)
  have c: "map_option (\<lambda>r. (fst r, trace (snd r)))
        (start_loop svc_up 0 (world0\<lparr>connect_r := (\<lambda>k. 3 \<le> k)\<rparr>))
       = Some (Inr (), [EvPoll, EvConnect 4444, EvSleep 500, EvPoll, EvConnect 4444, EvSleep 500,
                        EvPoll, EvConnect 4444, EvSleep 500, EvPoll, EvConnect 4444])"
    using C6_readiness_loop [of svc_up "world0\<lparr>connect_r := (\<lambda>k. 3 \<le> k)\<rparr>" "[]" 3 0]
    by (auto simp add: p world0_def numeral_3_eq_3)
  have d: "map_option (\<lambda>r. (fst r, trace (snd r)))
        (start_loop svc_up 0
           (world0\<lparr>connect_r := (\<lambda>k. 1 \<le> k), poll_r := (\<lambda>k. if k < 1 then None else Some (- 9))\<rparr>))
       = Some (Inl (WebDriverException
                 (''Service /usr/bin/safaridriver unexpectedly exited. Status code was: '' @
                  str_int (- 9))),
               [EvPoll, EvConnect 4444, EvSleep 500, EvPoll])"
    using C6_readiness_loop [of svc_up
        "world0\<lparr>connect_r := (\<lambda>k. 1 \<le> k), poll_r := (\<lambda>k. if k < 1 then None else Some (- 9))\<rparr>"
        "[]" 1 "- 9"]
    by (auto simp add: p world0_def)
  have e: "(3::nat) < 60" by simp
  from b c d e show ?thesis by blast
qed

text \<open>
  C1 at the exit status 0: the liveness check returns normally although the process
  has exited, and a \<^verbatim>\<open>start()\<close> whose child has exited with status 0 and whose port
  never opens runs the whole loop and raises the connect error, not the exit error.
\<close>

theorem C1_exit_status_zero_not_reported:
  "fst (assert_process_still_running s (w\<lparr>poll_r := (\<lambda>k. Some 0)\<rparr>)) = Inr ()
   \<and> map_option fst (start_loop s 0 (w\<lparr>poll_r := (\<lambda>k. Some 0), connect_r := (\<lambda>k. False)\<rparr>))
       = Some (Inl (WebDriverException (''Can not connect to the Service '' @ path s)))"
proof
  show "fst (assert_process_still_running s (w\<lparr>poll_r := (\<lambda>k. Some 0)\<rparr>)) = Inr ()"
    by (simp add: assert_process_still_running_def process_poll_def)
  have "start_loop s 0 (w\<lparr>poll_r := (\<lambda>k. Some 0), connect_r := (\<lambda>k. False)\<rparr>) =
      Some (Inl (WebDriverException (''Can not connect to the Service '' @ path s)),
            (retry_world s ^^ 60) (w\<lparr>poll_r := (\<lambda>k. Some 0), connect_r := (\<lambda>k. False)\<rparr>))"
    by (intro start_loop_timeout) simp_all
  then show "map_option fst (start_loop s 0 (w\<lparr>poll_r := (\<lambda>k. Some 0), connect_r := (\<lambda>k. False)\<rparr>))
       = Some (Inl (WebDriverException (''Can not connect to the Service '' @ path s)))"
    by simp
qed

section \<open>Shutdown\<close>

lemma is_connectable_fields [simp]:
  "fst (is_connectable s w) = connect_r w 0"
  "connect_r (snd (is_connectable s w)) k = connect_r w (Suc k)"
  by (simp_all add: is_connectable_def utils_is_connectable_def)

lemma sleep_fields [simp]:
  "connect_r (sleep ms w) = connect_r w" "trace (sleep ms w) = trace w @ [EvSleep ms]"
  by (simp_all add: sleep_def)

lemma shutdown_poll_closed_now:
  "\<not> connect_r w 0 \<Longrightarrow> shutdown_poll (Suc n) s w = snd (is_connectable s w)"
  by (simp add: is_connectable_def utils_is_connectable_def)

lemma shutdown_poll_open_now:
  "connect_r w 0 \<Longrightarrow>
   shutdown_poll (Suc n) s w = shutdown_poll n s (sleep 1000 (snd (is_connectable s w)))"
  by (simp add: is_connectable_def utils_is_connectable_def)

lemma shutdown_poll_never_closes:
  "\<forall>j<n. connect_r w j \<Longrightarrow>
   trace (shutdown_poll n s w) =
     trace w @ concat (replicate n [EvConnect (port s), EvSleep 1000])"
proof (induction n arbitrary: w)
  case 0
  then show ?case by simp
next
  case (Suc n)
  from Suc.prems have "connect_r w 0" by simp
  moreover from Suc.prems
  have "\<forall>j<n. connect_r (sleep 1000 (snd (is_connectable s w))) j" by simp
  ultimately show ?case
    by (simp add: shutdown_poll_open_now Suc.IH del: shutdown_poll.simps)
qed

lemma shutdown_poll_closes:
  "k < n \<Longrightarrow> \<not> connect_r w k \<Longrightarrow> \<forall>j<k. connect_r w j \<Longrightarrow>
   trace (shutdown_poll n s w) =
     trace w @ concat (replicate k [EvConnect (port s), EvSleep 1000]) @ [EvConnect (port s)]"
proof (induction k arbitrary: n w)
  case 0
  then obtain m where "n = Suc m" by (cases n) auto
  with 0 show ?case by (simp add: shutdown_poll_closed_now del: shutdown_poll.simps)
next
  case (Suc k)
  then obtain m where n: "n = Suc m" by (cases n) auto
  from Suc.prems have now: "connect_r w 0" by auto
  from Suc.prems n
  have "k < m" "\<not> connect_r (sleep 1000 (snd (is_connectable s w))) k"
    "\<forall>j<k. connect_r (sleep 1000 (snd (is_connectable s w))) j"
    by auto
  from Suc.IH [OF this] now n show ?case
    by (simp add: shutdown_poll_open_now del: shutdown_poll.simps)
qed

lemma urlopen_fields [simp]:
  "connect_r (snd (urlopen u w)) = connect_r w"
  "trace (snd (urlopen u w)) = trace w @ [EvUrlopen u]"
  "fst (urlopen u w) = urlopen_r w 0"
  by (simp_all add: urlopen_def)

text \<open>
  C4, as the code has it: when the request returns normally the port is polled at most
  30 times, with \<^verbatim>\<open>sleep(1)\<close> after every check that found it open, and the polling
  stops at the first check that finds it closed; when the request raises \<^verbatim>\<open>URLError\<close>
  the function returns at once, without polling; any other exception of the request
  leaves the function, without polling either.
\<close>

theorem C4_shutdown_polling:
  "(urlopen_r w 0 = None \<longrightarrow>
      fst (send_remote_shutdown_command s w) = Inr ()
      \<and> ((\<forall>j<30. connect_r w j) \<longrightarrow>
           trace (snd (send_remote_shutdown_command s w)) =
             trace w @ [EvUrlopen (service_url s @ ''/shutdown'')]
               @ concat (replicate 30 [EvConnect (port s), EvSleep 1000]))
      \<and> (k < 30 \<and> \<not> connect_r w k \<and> (\<forall>j<k. connect_r w j) \<longrightarrow>
           trace (snd (send_remote_shutdown_command s w)) =
             trace w @ [EvUrlopen (service_url s @ ''/shutdown'')]
               @ concat (replicate k [EvConnect (port s), EvSleep 1000]) @ [EvConnect (port s)]))
   \<and> (urlopen_r w 0 = Some e \<longrightarrow>
        send_remote_shutdown_command s w =
          (if is_URLError e then Inr () else Inl e, snd (urlopen (service_url s @ ''/shutdown'') w)))"
proof (intro conjI impI)
  assume "urlopen_r w 0 = None"
  then show "fst (send_remote_shutdown_command s w) = Inr ()"
    by (simp add: send_remote_shutdown_command_def urlopen_def)
next
  assume a: "urlopen_r w 0 = None" and b: "\<forall>j<30. connect_r w j"
  from a have "snd (send_remote_shutdown_command s w) =
      shutdown_poll 30 s (snd (urlopen (service_url s @ ''/shutdown'') w))"
    by (simp add: send_remote_shutdown_command_def urlopen_def)
  with b show "trace (snd (send_remote_shutdown_command s w)) =
             trace w @ [EvUrlopen (service_url s @ ''/shutdown'')]
               @ concat (replicate 30 [EvConnect (port s), EvSleep 1000])"
    by (simp add: shutdown_poll_never_closes)
next
  assume a: "urlopen_r w 0 = None" and b: "k < 30 \<and> \<not> connect_r w k \<and> (\<forall>j<k. connect_r w j)"
  from a have "snd (send_remote_shutdown_command s w) =
      shutdown_poll 30 s (snd (urlopen (service_url s @ ''/shutdown'') w))"
    by (simp add: send_remote_shutdown_command_def urlopen_def)
  with b shutdown_poll_closes [of k 30 "snd (urlopen (service_url s @ ''/shutdown'') w)" s]
  show "trace (snd (send_remote_shutdown_command s w)) =
             trace w @ [EvUrlopen (service_url s @ ''/shutdown'')]
               @ concat (replicate k [EvConnect (port s), EvSleep 1000]) @ [EvConnect (port s)]"
    by simp
next
  assume "urlopen_r w 0 = Some e"
  then show "send_remote_shutdown_command s w =
          (if is_URLError e then Inr () else Inl e, snd (urlopen (service_url s @ ''/shutdown'') w))"
    by (simp add: send_remote_shutdown_command_def urlopen_def)
qed

lemma service_url_svc_up [simp]: "service_url svc_up = ''http://localhost:4444''"
  by (simp add: service_url_def join_host_port_def svc_up_def svc0_def)

theorem C4_shutdown_polling_witness:
  "urlopen_r world0 0 = None
   \<and> fst (send_remote_shutdown_command svc_up world0) = Inr ()
   \<and> trace (snd (send_remote_shutdown_command svc_up world0)) =
       [EvUrlopen ''http://localhost:4444/shutdown'']
         @ concat (replicate 30 [EvConnect 4444, EvSleep 1000])
   \<and> (2::nat) < 30
   \<and> trace (snd (send_remote_shutdown_command svc_up (world0\<lparr>connect_r := (\<lambda>k. k < 2)\<rparr>))) =
       [EvUrlopen ''http://localhost:4444/shutdown'', EvConnect 4444, EvSleep 1000,
        EvConnect 4444, EvSleep 1000, EvConnect 4444]
   \<and> fst (send_remote_shutdown_command svc_up
            (world0\<lparr>urlopen_r := (\<lambda>k. Some (URLError ''Connection refused''))\<rparr>)) = Inr ()
   \<and> fst (send_remote_shutdown_command svc_up
            (world0\<lparr>urlopen_r := (\<lambda>k. Some (OSError 104 ''Connection reset by peer''))\<rparr>))
       = Inl (OSError 104 ''Connection reset by peer'')"
proof -
  have p: "port svc_up = 4444" by (simp add: svc_up_def svc0_def)
  have a0: "urlopen_r world0 0 = None" and a: "\<forall>j<30. connect_r world0 j"
    and t: "trace world0 = []"
    by (simp_all add: world0_def)
  have b: "fst (send_remote_shutdown_command svc_up world0) = Inr ()"
     "trace (snd (send_remote_shutdown_command svc_up world0)) =
       [EvUrlopen ''http://localhost:4444/shutdown'']
         @ concat (replicate 30 [EvConnect 4444, EvSleep 1000])"
    using C4_shutdown_polling [of world0 svc_up 0 "URLError []"] a0 a
    by (simp_all add: p t)
  have c: "trace (snd (send_remote_shutdown_command svc_up (world0\<lparr>connect_r := (\<lambda>k. k < 2)\<rparr>))) =
       [EvUrlopen ''http://localhost:4444/shutdown'', EvConnect 4444, EvSleep 1000,
        EvConnect 4444, EvSleep 1000, EvConnect 4444]"
    using C4_shutdown_polling [of "world0\<lparr>connect_r := (\<lambda>k. k < 2)\<rparr>" svc_up 2 "URLError []"]
    by (simp add: p world0_def numeral_2_eq_2)
  have d: "fst (send_remote_shutdown_command svc_up
            (world0\<lparr>urlopen_r := (\<lambda>k. Some (URLError ''Connection refused''))\<rparr>)) = Inr ()"
    using C4_shutdown_polling [of "world0\<lparr>urlopen_r := (\<lambda>k. Some (URLError ''Connection refused''))\<rparr>"
        svc_up 0 "URLError ''Connection refused''"]
    by simp
  have e: "fst (send_remote_shutdown_command svc_up
            (world0\<lparr>urlopen_r := (\<lambda>k. Some (OSError 104 ''Connection reset by peer''))\<rparr>))
       = Inl (OSError 104 ''Connection reset by peer'')"
    using C4_shutdown_polling [of "world0\<lparr>urlopen_r := (\<lambda>k. Some (OSError 104 ''Connection reset by peer''))\<rparr>"
        svc_up 0 "OSError 104 ''Connection reset by peer''"]
    by simp
  have f: "(2::nat) < 30" by simp
  from a0 b c d e f show ?thesis by blast
qed

text \<open>
  The claim C4 as stated fails: with the request refused (\<^verbatim>\<open>URLError\<close>) and the port
  still accepting connections, the function does not poll the port even once.
\<close>

theorem C4_no_polling_after_urlerror:
  "connect_r (world0\<lparr>urlopen_r := (\<lambda>k. Some (URLError ''Connection refused''))\<rparr>) 0
   \<and> trace (snd (send_remote_shutdown_command svc_up
               (world0\<lparr>urlopen_r := (\<lambda>k. Some (URLError ''Connection refused''))\<rparr>)))
       = [EvUrlopen ''http://localhost:4444/shutdown'']"
  by (simp add: send_remote_shutdown_command_def urlopen_def world0_def)

section \<open>Stopping\<close>

lemma stop_keeps_handle: "fst (snd (stop s w)) = s"
  by (simp add: stop_def Let_def split: prod.splits sum.splits)

lemma del_keeps_handle: "fst (snd (Service_del s w)) = s"
proof (cases "stop s w")
  case (fields r s1 w1)
  with stop_keeps_handle [of s w] show ?thesis by (simp add: Service_del_def)
qed

lemma del_never_raises: "fst (Service_del s w) = Inr ()"
  by (simp add: Service_del_def split: prod.splits)

lemma stop_without_process: "process s = None \<Longrightarrow> fst (stop s w) = Inr ()"
  by (simp add: stop_def Let_def)

lemma start_spawned:
  "popen_r w 0 = None \<Longrightarrow> \<exists>r w'. start s args w = Some (r, fst (snd (spawn s args w)), w')"
proof -
  assume a: "popen_r w 0 = None"
  obtain r w' where "start_loop (fst (snd (spawn s args w))) 0 (snd (snd (spawn s args w))) = Some (r, w')"
    using start_loop_returns [of 0] by (metis zero_less_numeral surj_pair)
  with a show ?thesis by (simp add: start_def spawn_ok)
qed

text \<open>
  C3, as the code has it: the process field is \<^verbatim>\<open>None\<close> after construction and is left
  as it was when the spawn inside \<^verbatim>\<open>start()\<close> fails; \<^verbatim>\<open>start()\<close> sets it as soon as the
  spawn has succeeded, whether the readiness polling then succeeds or raises; and
  \<^verbatim>\<open>stop()\<close> and the destructor leave the field as it was, they never clear it.
\<close>

theorem C3_process_field:
  "process (fst (Service_init ex p lf ev msg w0)) = None
   \<and> (popen_r w 0 = Some e \<longrightarrow>
        map_option (\<lambda>r. process (fst (snd r))) (start s args w) = Some (process s))
   \<and> (popen_r w 0 = None \<longrightarrow>
        (\<exists>r pr w'. start s args w = Some (r, s\<lparr>process := Some pr\<rparr>, w')))
   \<and> process (fst (snd (stop s w))) = process s
   \<and> process (fst (snd (Service_del s w))) = process s"
proof (intro conjI impI)
  show "process (fst (Service_init ex p lf ev msg w0)) = None" by (rule Service_init_process)
  show "process (fst (snd (stop s w))) = process s" by (simp add: stop_keeps_handle)
  show "process (fst (snd (Service_del s w))) = process s" by (simp add: del_keeps_handle)
next
  assume "popen_r w 0 = Some e"
  then show "map_option (\<lambda>r. process (fst (snd r))) (start s args w) = Some (process s)"
    by (simp add: start_spawn_fail)
next
  assume a: "popen_r w 0 = None"
  from start_spawned [OF a, of s args] a
  show "\<exists>r pr w'. start s args w = Some (r, s\<lparr>process := Some pr\<rparr>, w')"
    by (auto simp add: spawn_ok)
qed

lemma start_svc0_served:
  "start svc0 [''-p'', ''4444''] world_served =
     Some (Inr (), svc_up,
           snd (is_connectable svc_up (snd (assert_process_still_running svc_up
             (emit (EvPopen [''/usr/bin/safaridriver'', ''-p'', ''4444''])
                (world_served\<lparr>popen_r := shift (popen_r world_served)\<rparr>))))))"
proof -
  have sp: "spawn svc0 [''-p'', ''4444''] world_served =
      (Inr (), svc_up, emit (EvPopen [''/usr/bin/safaridriver'', ''-p'', ''4444''])
                (world_served\<lparr>popen_r := shift (popen_r world_served)\<rparr>))"
    by (simp add: spawn_ok world_served_def world0_def svc0_def svc_up_def proc0_def)
  have lp: "start_loop svc_up 0 (emit (EvPopen [''/usr/bin/safaridriver'', ''-p'', ''4444''])
                (world_served\<lparr>popen_r := shift (popen_r world_served)\<rparr>)) =
      Some (Inr (), snd (is_connectable svc_up (snd (assert_process_still_running svc_up
             (emit (EvPopen [''/usr/bin/safaridriver'', ''-p'', ''4444''])
                (world_served\<lparr>popen_r := shift (popen_r world_served)\<rparr>))))))"
    by (rule start_loop_connected) (simp_all add: world_served_def world0_def)
  show ?thesis by (simp add: start_def sp lp)
qed

theorem C3_process_field_witness:
  "process (fst (Service_init ''/usr/bin/safaridriver'' 4444 PIPE None [] world0)) = None
   \<and> map_option (\<lambda>r. process (fst (snd r)))
        (start svc0 [''-p'', ''4444'']
           (world0\<lparr>popen_r := (\<lambda>k. Some (OSError 2 ''No such file or directory''))\<rparr>)) = Some None
   \<and> popen_r world_served 0 = None
   \<and> map_option (\<lambda>r. process (fst (snd r))) (start svc0 [''-p'', ''4444''] world_served)
       = Some (Some proc0)
   \<and> process (fst (snd (stop svc_up world_served))) = Some proc0
   \<and> process (fst (snd (Service_del svc_up world_served))) = Some proc0"
proof -
  have a: "process (fst (Service_init ''/usr/bin/safaridriver'' 4444 PIPE None [] world0)) = None"
    using C3_process_field [of "''/usr/bin/safaridriver''" 4444 PIPE None "[]" world0 world0
        "OSError 0 []" svc0 "[]"]
    by simp
  have b: "map_option (\<lambda>r. process (fst (snd r)))
        (start svc0 [''-p'', ''4444'']
           (world0\<lparr>popen_r := (\<lambda>k. Some (OSError 2 ''No such file or directory''))\<rparr>)) = Some None"
    using C3_process_field [of "''/usr/bin/safaridriver''" 4444 PIPE None "[]" world0
        "world0\<lparr>popen_r := (\<lambda>k. Some (OSError 2 ''No such file or directory''))\<rparr>"
        "OSError 2 ''No such file or directory''" svc0 "[''-p'', ''4444'']"]
    by (simp add: svc0_def)
  have c: "popen_r world_served 0 = None" by (simp add: world_served_def world0_def)
  have d: "map_option (\<lambda>r. process (fst (snd r))) (start svc0 [''-p'', ''4444''] world_served)
       = Some (Some proc0)"
    using C3_process_field [of "''/usr/bin/safaridriver''" 4444 PIPE None "[]" world0 world_served
        "OSError 0 []" svc0 "[''-p'', ''4444'']"] c
    by (auto simp add: start_svc0_served svc_up_def)
  have e: "process (fst (snd (stop svc_up world_served))) = Some proc0"
     "process (fst (snd (Service_del svc_up world_served))) = Some proc0"
    using C3_process_field [of "''/usr/bin/safaridriver''" 4444 PIPE None "[]" world0 world_served
        "OSError 0 []" svc_up "[]"]
    by (simp_all add: svc_up_def)
  from a b c d e show ?thesis by blast
qed

lemma shutdown_poll_30_closed:
  "\<not> connect_r w 0 \<Longrightarrow> shutdown_poll 30 s w = snd (is_connectable s w)"
  using shutdown_poll_closed_now [of w 29 s] by (simp add: eval_nat_numeral)

text \<open>
  The claim C3 as stated fails: after a successful \<^verbatim>\<open>start()\<close> and a \<^verbatim>\<open>stop()\<close> that
  returns normally, the process field still holds the process.
\<close>

theorem C3_process_not_cleared_by_stop:
  "start svc0 [''-p'', ''4444''] world_served \<noteq> None
   \<and> fst (the (start svc0 [''-p'', ''4444''] world_served)) = Inr ()
   \<and> fst (stop (fst (snd (the (start svc0 [''-p'', ''4444''] world_served))))
              (snd (snd (the (start svc0 [''-p'', ''4444''] world_served))))) = Inr ()
   \<and> process (fst (snd (stop (fst (snd (the (start svc0 [''-p'', ''4444''] world_served))))
                           (snd (snd (the (start svc0 [''-p'', ''4444''] world_served)))))))
       = Some proc0"
  by (simp add: start_svc0_served stop_keeps_handle)
     (simp add: svc_up_def svc0_def proc0_def stop_def send_remote_shutdown_command_def
        urlopen_def shutdown_poll_30_closed terminate_process_def terminate_body_def
        close_suppressing_def stream_close_def process_terminate_def process_wait_def
        process_kill_def is_connectable_def utils_is_connectable_def
        assert_process_still_running_def process_poll_def world_served_def world0_def)

lemma terminate_process_oserror_logged:
  "process s = Some p \<Longrightarrow> terminate_body p w = (Some e, w1) \<Longrightarrow> is_OSError e \<Longrightarrow>
   terminate_process s w = (Inr (), log_error ''Error terminating service process.'' w1)"
  by (simp add: terminate_process_def)

lemma terminate_process_other_escapes:
  "process s = Some p \<Longrightarrow> terminate_body p w = (Some e, w1) \<Longrightarrow> \<not> is_OSError e \<Longrightarrow>
   terminate_process s w = (Inl e, w1)"
  by (simp add: terminate_process_def)

lemmas stop_unfold =
  stop_def send_remote_shutdown_command_def urlopen_def shutdown_poll_30_closed
  terminate_process_def terminate_body_def close_suppressing_def stream_close_def
  process_terminate_def process_wait_def process_kill_def is_connectable_def
  utils_is_connectable_def log_error_def HAS_NATIVE_DEVNULL_def sink_close_def

text \<open>
  C2 where the child ignores the termination signal: \<^verbatim>\<open>process.wait(60)\<close> raises
  \<^verbatim>\<open>TimeoutExpired\<close>, which is not an \<^verbatim>\<open>OSError\<close>; \<^verbatim>\<open>stop()\<close> raises it to its caller,
  nothing is logged and the kill is not issued. And where sending the termination
  signal fails with an \<^verbatim>\<open>OSError\<close>, the error is logged and \<^verbatim>\<open>stop()\<close> returns, but
  neither the wait nor the kill happens.
\<close>

theorem C2_wait_timeout_escapes_stop:
  "fst (stop svc_up world_stuck) = Inl TimeoutExpired
   \<and> trace (snd (snd (stop svc_up world_stuck))) =
       [EvUrlopen ''http://localhost:4444/shutdown'', EvConnect 4444, EvStreamClose Stdin,
        EvStreamClose Stdout, EvStreamClose Stderr, EvTerminate, EvWait 60000]
   \<and> fst (stop svc_up world_eperm) = Inr ()
   \<and> trace (snd (snd (stop svc_up world_eperm))) =
       [EvUrlopen ''http://localhost:4444/shutdown'', EvConnect 4444, EvStreamClose Stdin,
        EvStreamClose Stdout, EvStreamClose Stderr, EvTerminate,
        EvLogError ''Error terminating service process.'']"
  by (simp add: stop_unfold svc_up_def svc0_def proc0_def world_stuck_def world_eperm_def
        world0_def service_url_def join_host_port_def)

text \<open>
  C7 where the child ignores the termination signal: the first \<^verbatim>\<open>stop()\<close> raises
  \<^verbatim>\<open>TimeoutExpired\<close>, and so does a second \<^verbatim>\<open>stop()\<close> called right after it on the same
  handle.
\<close>

theorem C7_second_stop_raises:
  "fst (stop svc_up world_stuck) = Inl TimeoutExpired
   \<and> fst (stop (fst (snd (stop svc_up world_stuck))) (snd (snd (stop svc_up world_stuck))))
       = Inl TimeoutExpired"
  by (simp add: stop_keeps_handle)
     (simp add: stop_unfold svc_up_def svc0_def proc0_def world_stuck_def
        world0_def service_url_def join_host_port_def)

text \<open>
  What does hold of C7: whatever closing the output sink raises is dropped, so a
  \<^verbatim>\<open>stop()\<close> on a handle without a process never raises, however often the sink is
  closed; and the destructor never raises.
\<close>

lemma stop_twice_without_process:
  "process s = None \<Longrightarrow>
   fst (stop s w) = Inr ()
   \<and> fst (stop (fst (snd (stop s w))) (snd (snd (stop s w)))) = Inr ()"
  by (simp add: stop_keeps_handle stop_without_process)

end
